theory Spec2Isabelle
  imports Main "HOL-Library.AList"
begin

section \<open>Python values, exceptions and the operations the client uses on them\<close>

text \<open>
  The client \<^verbatim>\<open>agentcore_memory_client.py\<close> talks to boto3, whose responses are nested
  dictionaries and lists.  They are modelled by one datatype of Python values.  A
  dictionary is an association list with string keys, read with \<open>map_of\<close>.  A
  \<^verbatim>\<open>datetime\<close> carries whether it is timezone-aware and its position on the time line in
  microseconds since 1970-01-01T00:00.
\<close>

datatype pyval =
    PNone
  | PBool bool
  | PInt int
  | PStr string
  | PDatetime bool int
  | PList "pyval list"
  | PDict "(string \<times> pyval) list"

text \<open>
  Every exception the modelled code can meet is a subclass of \<^verbatim>\<open>Exception\<close>, so each
  \<^verbatim>\<open>except Exception\<close> clause catches all of them.  \<open>Exception\<close> stands for an error
  raised by a backend call (a botocore error or any other), with its message.
\<close>

datatype exn =
    Exception string
  | KeyError string
  | IndexError string
  | TypeError string
  | AttributeError string
  | ValueError string
  | UnboundLocalError string
  | TimeoutError string
  | OverflowError string

text \<open>\<^verbatim>\<open>str(e)\<close>: the message; for a \<^verbatim>\<open>KeyError\<close> the quoted key.\<close>

fun str_exn :: "exn \<Rightarrow> string" where
  "str_exn (Exception m) = m"
| "str_exn (KeyError k) = [CHR 0x27] @ k @ [CHR 0x27]"
| "str_exn (IndexError m) = m"
| "str_exn (TypeError m) = m"
| "str_exn (AttributeError m) = m"
| "str_exn (ValueError m) = m"
| "str_exn (UnboundLocalError v) =
     ''cannot access local variable '' @ [CHR 0x27] @ v @ [CHR 0x27] @
     '' where it is not associated with a value''"
| "str_exn (TimeoutError m) = m"
| "str_exn (OverflowError m) = m"

text \<open>\<^verbatim>\<open>sub in s\<close> on strings: \<open>sub\<close> occurs in \<open>s\<close> as a contiguous substring.\<close>

fun starts_with :: "string \<Rightarrow> string \<Rightarrow> bool" where
  "starts_with [] s = True"
| "starts_with (p # ps) [] = False"
| "starts_with (p # ps) (c # cs) = (p = c \<and> starts_with ps cs)"

fun py_in :: "string \<Rightarrow> string \<Rightarrow> bool" where
  "py_in sub [] = (sub = [])"
| "py_in sub (c # cs) = (if starts_with sub (c # cs) then True else py_in sub cs)"

text \<open>Truth value testing, as \<^verbatim>\<open>if x\<close> and \<^verbatim>\<open>not x\<close> do it.\<close>

fun py_truthy :: "pyval \<Rightarrow> bool" where
  "py_truthy PNone = False"
| "py_truthy (PBool b) = b"
| "py_truthy (PInt i) = (if i = 0 then False else True)"
| "py_truthy (PStr s) = (if s = [] then False else True)"
| "py_truthy (PDatetime a t) = True"
| "py_truthy (PList xs) = (if xs = [] then False else True)"
| "py_truthy (PDict d) = (if d = [] then False else True)"

text \<open>\<^verbatim>\<open>v[key]\<close> with a string key.\<close>

fun py_getitem :: "pyval \<Rightarrow> string \<Rightarrow> exn + pyval" where
  "py_getitem (PDict d) k = (case map_of d k of None \<Rightarrow> Inl (KeyError k) | Some v \<Rightarrow> Inr v)"
| "py_getitem (PList xs) k = Inl (TypeError ''list indices must be integers or slices, not str'')"
| "py_getitem (PStr s) k = Inl (TypeError ''string indices must be integers, not str'')"
| "py_getitem v k = Inl (TypeError ''object is not subscriptable'')"

text \<open>\<^verbatim>\<open>v[0]\<close>.\<close>

fun py_getitem0 :: "pyval \<Rightarrow> exn + pyval" where
  "py_getitem0 (PList []) = Inl (IndexError ''list index out of range'')"
| "py_getitem0 (PList (x # xs)) = Inr x"
| "py_getitem0 (PStr []) = Inl (IndexError ''string index out of range'')"
| "py_getitem0 (PStr (c # cs)) = Inr (PStr [c])"
| "py_getitem0 (PDict d) = Inl (KeyError ''0'')"
| "py_getitem0 v = Inl (TypeError ''object is not subscriptable'')"

text \<open>\<^verbatim>\<open>v.get(key, default)\<close>.\<close>

fun py_get :: "pyval \<Rightarrow> string \<Rightarrow> pyval \<Rightarrow> exn + pyval" where
  "py_get (PDict d) k dflt = (case map_of d k of None \<Rightarrow> Inr dflt | Some v \<Rightarrow> Inr v)"
| "py_get v k dflt = Inl (AttributeError ''object has no attribute get'')"

text \<open>\<^verbatim>\<open>del v[key]\<close>, returning the dictionary without the key.\<close>

fun py_del :: "pyval \<Rightarrow> string \<Rightarrow> exn + pyval" where
  "py_del (PDict d) k =
     (case map_of d k of None \<Rightarrow> Inl (KeyError k) | Some v \<Rightarrow> Inr (PDict (AList.delete k d)))"
| "py_del v k = Inl (TypeError ''object does not support item deletion'')"

text \<open>\<^verbatim>\<open>len(v)\<close>.\<close>

fun py_len :: "pyval \<Rightarrow> exn + nat" where
  "py_len (PList xs) = Inr (length xs)"
| "py_len (PStr s) = Inr (length s)"
| "py_len (PDict d) = Inr (length d)"
| "py_len v = Inl (TypeError ''object has no len()'')"

text \<open>The elements \<^verbatim>\<open>for x in v\<close> visits.\<close>

fun py_iter :: "pyval \<Rightarrow> exn + pyval list" where
  "py_iter (PList xs) = Inr xs"
| "py_iter (PStr s) = Inr (map (\<lambda>c. PStr [c]) s)"
| "py_iter (PDict d) = Inr (map (\<lambda>kv. PStr (fst kv)) d)"
| "py_iter v = Inl (TypeError ''object is not iterable'')"

text \<open>
  \<^verbatim>\<open>x > t\<close> where \<open>t\<close> is a \<^verbatim>\<open>datetime\<close>: two datetimes are ordered only when both are
  naive or both are aware; anything else is a \<^verbatim>\<open>TypeError\<close>.
\<close>

fun py_gt_datetime :: "pyval \<Rightarrow> pyval \<Rightarrow> exn + bool" where
  "py_gt_datetime (PDatetime a s) (PDatetime b t) =
     (if a = b then Inr (t < s)
      else Inl (TypeError ''can't compare offset-naive and offset-aware datetimes''))"
| "py_gt_datetime x y = Inl (TypeError '''>' not supported between these instances'')"

text \<open>
  Reading a local variable.  A name that a function assigns anywhere in its body is local
  to the whole body; reading it before the first assignment raises
  \<^verbatim>\<open>UnboundLocalError\<close>.  \<open>None\<close> is the unbound state.
\<close>

definition read_local :: "string \<Rightarrow> 'a option \<Rightarrow> exn + 'a" where
  "read_local name binding =
     (case binding of None \<Rightarrow> Inl (UnboundLocalError name) | Some v \<Rightarrow> Inr v)"

section \<open>The world: the module globals and the calls made\<close>

text \<open>
  Every call that leaves the process is recorded, in order.  Keyword arguments are the
  association list of the \<^verbatim>\<open>**args\<close> dictionary.
\<close>

datatype call =
    GetMemory pyval
  | UpdateMemory "(string \<times> pyval) list"
  | DeleteMemory pyval
  | ListSessions "(string \<times> pyval) list"
  | ListEvents "(string \<times> pyval) list"
  | CreateEvent "(string \<times> pyval) list"
  | ResolveMemoryId
  | Sleep int

record world =
  agentcore_memory_id :: pyval
  trace :: "call list"

text \<open>
  The backend is a parameter.  \<open>get_memory\<close> answers by the number of \<open>get_memory\<close>
  calls made before (a script, as a mock's \<^verbatim>\<open>side_effect\<close> list).  \<open>resolve_memory_id\<close> is
  the outcome of \<^verbatim>\<open>_get_agentcore_memory_id\<close> (parameter store lookup or provisioning),
  \<open>now\<close> the reading of \<^verbatim>\<open>datetime.now()\<close>, \<open>isoformat\<close> the text of a datetime.
\<close>

record backend =
  get_memory :: "nat \<Rightarrow> pyval \<Rightarrow> exn + pyval"
  update_memory :: "(string \<times> pyval) list \<Rightarrow> exn + pyval"
  delete_memory :: "pyval \<Rightarrow> exn + pyval"
  list_sessions :: "(string \<times> pyval) list \<Rightarrow> exn + pyval"
  list_events :: "(string \<times> pyval) list \<Rightarrow> exn + pyval"
  create_event :: "(string \<times> pyval) list \<Rightarrow> exn + pyval"
  resolve_memory_id :: "exn + pyval"
  now :: int
  isoformat :: "bool \<Rightarrow> int \<Rightarrow> string"

fun is_check :: "call \<Rightarrow> bool" where
  "is_check (GetMemory m) = True"
| "is_check c = False"


fun is_append :: "call \<Rightarrow> bool" where
  "is_append (CreateEvent a) = True"
| "is_append c = False"

fun is_update :: "call \<Rightarrow> bool" where
  "is_update (UpdateMemory a) = True"
| "is_update c = False"

definition checks :: "world \<Rightarrow> nat" where
  "checks w = length (filter is_check (trace w))"


definition appends :: "world \<Rightarrow> nat" where
  "appends w = length (filter is_append (trace w))"

definition updates :: "world \<Rightarrow> nat" where
  "updates w = length (filter is_update (trace w))"

definition record_call :: "call \<Rightarrow> world \<Rightarrow> world" where
  "record_call c w = w\<lparr>trace := trace w @ [c]\<rparr>"

definition call_get_memory :: "backend \<Rightarrow> pyval \<Rightarrow> world \<Rightarrow> (exn + pyval) \<times> world" where
  "call_get_memory be memory_id w =
     (get_memory be (checks w) memory_id, record_call (GetMemory memory_id) w)"


section \<open>The poll loops\<close>







section \<open>Requests and results\<close>

text \<open>
  The request and response classes live in \<^verbatim>\<open>agentic_platform.core.models.memory_models\<close>,
  which is not among the sources.  The records below list the attributes the client reads
  and writes; each attribute holds a Python value.
\<close>

record message =
  role :: pyval
  content :: pyval

record session_context =
  sc_session_id :: pyval
  sc_user_id :: pyval
  messages :: "message list"

record memory =
  memory_role :: pyval
  memory_content :: pyval

record request =
  session_id :: pyval
  user_id :: pyval
  next_token :: pyval
  limit :: pyval
  session_context :: session_context

record provider_request =
  memory_id :: pyval
  description :: pyval
  event_expiry_duration :: pyval
  memory_strategies :: pyval

text \<open>
  What \<^verbatim>\<open>get_session_context\<close> returns: the \<^verbatim>\<open>SessionContext\<close> of a new session, or a
  \<^verbatim>\<open>GetSessionContextResponse\<close> holding the events read.
\<close>

datatype session_result =
    NewSession session_context
  | GetSessionContextResponse "pyval list"

datatype client = Boto3Client

section \<open>Sessions and events\<close>

definition call_list_sessions ::
  "backend \<Rightarrow> (string \<times> pyval) list \<Rightarrow> world \<Rightarrow> (exn + pyval) \<times> world" where
  "call_list_sessions be args w = (list_sessions be args, record_call (ListSessions args) w)"

definition call_list_events ::
  "backend \<Rightarrow> (string \<times> pyval) list \<Rightarrow> world \<Rightarrow> (exn + pyval) \<times> world" where
  "call_list_events be args w = (list_events be args, record_call (ListEvents args) w)"

definition call_create_event ::
  "backend \<Rightarrow> (string \<times> pyval) list \<Rightarrow> world \<Rightarrow> (exn + pyval) \<times> world" where
  "call_create_event be args w = (create_event be args, record_call (CreateEvent args) w)"

definition init_text :: string where
  "init_text = ''Initializing new AgentCore memory session.''"

definition init_payload :: pyval where
  "init_payload =
     PList [PDict [(''conversational'',
       PDict [(''content'', PDict [(''text'', PStr init_text)]),
              (''role'', PStr ''ASSISTANT'')])]]"

text \<open>The keyword arguments of the \<^verbatim>\<open>create_event\<close> call of lines 439 to 444.\<close>

definition init_event_args :: "backend \<Rightarrow> pyval \<Rightarrow> pyval \<Rightarrow> (string \<times> pyval) list" where
  "init_event_args be memory actor_id =
     [(''memoryId'', memory),
      (''actorId'', actor_id),
      (''eventTimestamp'', PDatetime False (now be)),
      (''payload'', init_payload)]"

text \<open>\<^verbatim>\<open>initialize_session\<close> (lines 429 to 460).\<close>

definition initialize_session ::
  "backend \<Rightarrow> pyval \<Rightarrow> world \<Rightarrow> (exn + session_context) \<times> world" where
  "initialize_session be actor_id w =
     (case call_create_event be (init_event_args be (agentcore_memory_id w) actor_id) w of
        (r, w1) \<Rightarrow>
          (case r of
             Inl e \<Rightarrow> (Inl e, w1)
           | Inr response \<Rightarrow>
               (case py_getitem response ''event'' of
                  Inl e \<Rightarrow> (Inl e, w1)
                | Inr event \<Rightarrow>
                    (case py_getitem event ''sessionId'' of
                       Inl e \<Rightarrow> (Inl e, w1)
                     | Inr sid \<Rightarrow>
                         (case py_getitem event ''actorId'' of
                            Inl e \<Rightarrow> (Inl e, w1)
                          | Inr aid \<Rightarrow>
                              (Inr \<lparr>sc_session_id = sid, sc_user_id = aid,
                                    messages =
                                      [\<lparr>role = PStr ''assistant'',
                                        content = PList [PDict [(''type'', PStr ''text''),
                                                                (''text'', PStr init_text)]]\<rparr>]\<rparr>,
                               w1))))))"

text \<open>
  The loop of \<^verbatim>\<open>get_memories\<close> (lines 525 to 528) over the events still to come, with
  the list \<open>context\<close> built so far.
\<close>

fun get_memories_loop :: "pyval list \<Rightarrow> pyval list \<Rightarrow> exn + pyval list" where
  "get_memories_loop [] context = Inr context"
| "get_memories_loop (evt # rest) context =
     (case py_del evt ''memoryId'' of
        Inl e \<Rightarrow> Inl e
      | Inr evt1 \<Rightarrow>
          (case py_del evt1 ''actorId'' of
             Inl e \<Rightarrow> Inl e
           | Inr evt2 \<Rightarrow> get_memories_loop rest (context @ [evt2])))"

text \<open>The \<^verbatim>\<open>args\<close> dictionary of lines 513 to 521.\<close>

definition list_events_args :: "pyval \<Rightarrow> request \<Rightarrow> (string \<times> pyval) list" where
  "list_events_args memory request =
     [(''memoryId'', memory),
      (''sessionId'', session_id request),
      (''actorId'', user_id request),
      (''includePayloads'', PBool True),
      (''maxResults'', limit request)]
     @ (if py_truthy (next_token request) then [(''nextToken'', next_token request)] else [])"

text \<open>\<^verbatim>\<open>get_memories\<close> (lines 511 to 529).\<close>

definition get_memories :: "backend \<Rightarrow> request \<Rightarrow> world \<Rightarrow> (exn + pyval list) \<times> world" where
  "get_memories be request w =
     (case call_list_events be (list_events_args (agentcore_memory_id w) request) w of
        (r, w1) \<Rightarrow>
          (case r of
             Inl e \<Rightarrow> (Inl e, w1)
           | Inr response \<Rightarrow>
               (case py_getitem response ''events'' of
                  Inl e \<Rightarrow> (Inl e, w1)
                | Inr events \<Rightarrow>
                    (case py_iter events of
                       Inl e \<Rightarrow> (Inl e, w1)
                     | Inr evts \<Rightarrow> (get_memories_loop evts [], w1)))))"

text \<open>
  The scan of \<^verbatim>\<open>get_session_context\<close> (lines 499 to 502) over the sessions still to come,
  with the two running variables.  The identifier is read under the key \<^verbatim>\<open>sesssionId\<close>, as
  line 501 spells it.
\<close>

fun scan_sessions :: "pyval list \<Rightarrow> pyval \<Rightarrow> pyval \<Rightarrow> exn + pyval \<times> pyval" where
  "scan_sessions [] most_recent_session_id most_recent_session_time =
     Inr (most_recent_session_id, most_recent_session_time)"
| "scan_sessions (session # rest) most_recent_session_id most_recent_session_time =
     (case py_getitem session ''createdAt'' of
        Inl e \<Rightarrow> Inl e
      | Inr created \<Rightarrow>
          (case py_gt_datetime created most_recent_session_time of
             Inl e \<Rightarrow> Inl e
           | Inr newer \<Rightarrow>
               if newer then
                 (case py_getitem session ''sesssionId'' of
                    Inl e \<Rightarrow> Inl e
                  | Inr sid \<Rightarrow> scan_sessions rest sid created)
               else scan_sessions rest most_recent_session_id most_recent_session_time))"

text \<open>
  Lines 463 to 471: the process-wide memory id is resolved on first use.
\<close>

definition ensure_memory_id :: "backend \<Rightarrow> world \<Rightarrow> (exn + unit) \<times> world" where
  "ensure_memory_id be w =
     (if py_truthy (agentcore_memory_id w) then (Inr (), w)
      else
        (case resolve_memory_id be of
           Inl e \<Rightarrow> (Inl e, record_call ResolveMemoryId w)
         | Inr v \<Rightarrow> (Inr (), (record_call ResolveMemoryId w)\<lparr>agentcore_memory_id := v\<rparr>)))"

text \<open>
  A \<^verbatim>\<open>return cls.initialize_session(...)\<close> inside the outer \<^verbatim>\<open>try\<close>: the outcome of the
  resolution is either a finished session context (\<open>Inl\<close>) or the session id to read
  events for (\<open>Inr\<close>).
\<close>

definition return_new_session ::
  "(exn + session_context) \<times> world \<Rightarrow> (exn + (session_context + pyval)) \<times> world" where
  "return_new_session x =
     (case x of (Inl e, w) \<Rightarrow> (Inl e, w) | (Inr ctx, w) \<Rightarrow> (Inr (Inl ctx), w))"

text \<open>
  Lines 489 to 503, entered after the inner \<^verbatim>\<open>try\<close> statement.  \<open>response\<close> is the
  binding of the local variable of that name: it is unbound when \<^verbatim>\<open>list_sessions\<close> raised
  and the handler did not return.
\<close>

definition after_listing ::
  "backend \<Rightarrow> request \<Rightarrow> pyval option \<Rightarrow> world \<Rightarrow> (exn + (session_context + pyval)) \<times> world"
  where
  "after_listing be request response w =
     (case read_local ''response'' response of
        Inl e \<Rightarrow> (Inl e, w)
      | Inr resp \<Rightarrow>
          (case py_get resp ''sessionSummaries'' (PList []) of
             Inl e \<Rightarrow> (Inl e, w)
           | Inr summaries \<Rightarrow>
               (case py_len summaries of
                  Inl e \<Rightarrow> (Inl e, w)
                | Inr n \<Rightarrow>
                    if n = 0 then return_new_session (initialize_session be (user_id request) w)
                    else
                      (case py_getitem resp ''sessionSummaries'' of
                         Inl e \<Rightarrow> (Inl e, w)
                       | Inr summaries2 \<Rightarrow>
                           (case py_iter summaries2 of
                              Inl e \<Rightarrow> (Inl e, w)
                            | Inr sessions \<Rightarrow>
                                (case scan_sessions sessions PNone (PDatetime False 0) of
                                   Inl e \<Rightarrow> (Inl e, w)
                                 | Inr found \<Rightarrow> (Inr (Inr (fst found)), w)))))))"

text \<open>
  Lines 476 to 503, the body of the outer \<^verbatim>\<open>try\<close>.  The handler of the inner \<^verbatim>\<open>try\<close>
  returns a new session when the error text names \<^verbatim>\<open>ResourceNotFoundException\<close> and
  otherwise ends without raising.
\<close>

definition list_sessions_args :: "pyval \<Rightarrow> request \<Rightarrow> (string \<times> pyval) list" where
  "list_sessions_args memory request =
     [(''memoryId'', memory), (''actorId'', user_id request)]
     @ (if py_truthy (next_token request) then [(''nextToken'', next_token request)] else [])"

definition resolve_session ::
  "backend \<Rightarrow> request \<Rightarrow> world \<Rightarrow> (exn + (session_context + pyval)) \<times> world" where
  "resolve_session be request w =
     (case call_list_sessions be (list_sessions_args (agentcore_memory_id w) request) w of
        (r, w1) \<Rightarrow>
          (case r of
             Inl e \<Rightarrow>
               if py_in ''ResourceNotFoundException'' (str_exn e)
               then return_new_session (initialize_session be (user_id request) w1)
               else after_listing be request None w1
           | Inr response \<Rightarrow> after_listing be request (Some response) w1))"

text \<open>Lines 508 and 509.\<close>

definition read_context ::
  "backend \<Rightarrow> request \<Rightarrow> world \<Rightarrow> (exn + session_result) \<times> world" where
  "read_context be request w =
     (case get_memories be request w of
        (Inl e, w1) \<Rightarrow> (Inl e, w1)
      | (Inr contexts, w1) \<Rightarrow> (Inr (GetSessionContextResponse contexts), w1))"

text \<open>
  \<^verbatim>\<open>get_session_context\<close> (lines 462 to 509).  The outer handler logs and raises the
  exception it caught, so an error of the resolution is the error of the call.
\<close>

definition get_session_context ::
  "backend \<Rightarrow> request \<Rightarrow> world \<Rightarrow> (exn + session_result) \<times> world" where
  "get_session_context be request w =
     (case ensure_memory_id be w of
        (Inl e, w0) \<Rightarrow> (Inl e, w0)
      | (Inr u, w0) \<Rightarrow>
          if py_truthy (session_id request) then read_context be request w0
          else
            (case resolve_session be request w0 of
               (Inl e, w1) \<Rightarrow> (Inl e, w1)
             | (Inr (Inl ctx), w1) \<Rightarrow> (Inr (NewSession ctx), w1)
             | (Inr (Inr most_recent_session_id), w1) \<Rightarrow>
                 read_context be (request\<lparr>session_id := most_recent_session_id\<rparr>) w1))"

text \<open>\<^verbatim>\<open>xs[-1]\<close> on a list.\<close>

definition py_last :: "'a list \<Rightarrow> exn + 'a" where
  "py_last xs = (if xs = [] then Inl (IndexError ''list index out of range'') else Inr (last xs))"

text \<open>\<^verbatim>\<open>response['payload'][0]['conversational']['role']\<close> (line 554).\<close>

definition event_role :: "pyval \<Rightarrow> exn + pyval" where
  "event_role response =
     (case py_getitem response ''payload'' of
        Inl e \<Rightarrow> Inl e
      | Inr payload \<Rightarrow>
          (case py_getitem0 payload of
             Inl e \<Rightarrow> Inl e
           | Inr first \<Rightarrow>
               (case py_getitem first ''conversational'' of
                  Inl e \<Rightarrow> Inl e
                | Inr conv \<Rightarrow> py_getitem conv ''role'')))"

text \<open>\<^verbatim>\<open>response['payload'][0]['content']['text']\<close> (line 555).\<close>

definition event_content :: "pyval \<Rightarrow> exn + pyval" where
  "event_content response =
     (case py_getitem response ''payload'' of
        Inl e \<Rightarrow> Inl e
      | Inr payload \<Rightarrow>
          (case py_getitem0 payload of
             Inl e \<Rightarrow> Inl e
           | Inr first \<Rightarrow>
               (case py_getitem first ''content'' of
                  Inl e \<Rightarrow> Inl e
                | Inr cont \<Rightarrow> py_getitem cont ''text'')))"

text \<open>The keyword arguments of the \<^verbatim>\<open>create_event\<close> call of lines 539 to 551.\<close>

definition create_memory_args :: "pyval \<Rightarrow> request \<Rightarrow> message \<Rightarrow> (string \<times> pyval) list" where
  "create_memory_args memory request newest_msg =
     [(''memoryId'', memory),
      (''sessionId'', session_id request),
      (''actorId'', user_id request),
      (''payload'',
         PList [PDict [(''conversational'',
           PDict [(''content'', PDict [(''text'', content newest_msg)]),
                  (''role'', role newest_msg)])]])]"

text \<open>\<^verbatim>\<open>create_memory\<close> (lines 536 to 558).\<close>

definition create_memory :: "backend \<Rightarrow> request \<Rightarrow> world \<Rightarrow> (exn + memory) \<times> world" where
  "create_memory be request w =
     (case py_last (messages (session_context request)) of
        Inl e \<Rightarrow> (Inl e, w)
      | Inr newest_msg \<Rightarrow>
          (case call_create_event be
                  (create_memory_args (agentcore_memory_id w) request newest_msg) w of
             (r, w1) \<Rightarrow>
               (case r of
                  Inl e \<Rightarrow> (Inl e, w1)
                | Inr ack \<Rightarrow>
                    (case py_getitem ack ''event'' of
                       Inl e \<Rightarrow> (Inl e, w1)
                     | Inr response \<Rightarrow>
                         (case event_role response of
                            Inl e \<Rightarrow> (Inl e, w1)
                          | Inr rl \<Rightarrow>
                              (case event_content response of
                                 Inl e \<Rightarrow> (Inl e, w1)
                               | Inr ct \<Rightarrow>
                                   (Inr \<lparr>memory_role = rl, memory_content = ct\<rparr>, w1)))))))"

section \<open>The memory provider: delete and update\<close>

definition call_delete_memory :: "backend \<Rightarrow> pyval \<Rightarrow> world \<Rightarrow> (exn + pyval) \<times> world" where
  "call_delete_memory be mid w = (delete_memory be mid, record_call (DeleteMemory mid) w)"

definition call_update_memory ::
  "backend \<Rightarrow> (string \<times> pyval) list \<Rightarrow> world \<Rightarrow> (exn + pyval) \<times> world" where
  "call_update_memory be args w = (update_memory be args, record_call (UpdateMemory args) w)"

text \<open>
  The \<^verbatim>\<open>try\<close> statement of \<^verbatim>\<open>delete_memory_provider\<close> (lines 205 to 216); its handler logs
  and raises what it caught.
\<close>

definition delete_memory_provider_try ::
  "backend \<Rightarrow> provider_request \<Rightarrow> world \<Rightarrow> (exn + pyval) \<times> world" where
  "delete_memory_provider_try be request w =
     (case call_delete_memory be (memory_id request) w of
        (r, w1) \<Rightarrow>
          (case r of
             Inl e \<Rightarrow> (Inl e, w1)
           | Inr ack \<Rightarrow> (Inr (memory_id request), w1)))"

text \<open>
  \<^verbatim>\<open>delete_memory_provider\<close> (lines 187 to 216).  Line 204 assigns
  \<^verbatim>\<open>agentcore_control_client\<close> and the function declares no \<^verbatim>\<open>global\<close>, so the name is a
  local variable of the function, unbound on entry, and line 203 reads it.
\<close>

definition delete_memory_provider ::
  "backend \<Rightarrow> provider_request \<Rightarrow> world \<Rightarrow> (exn + pyval) \<times> world" where
  "delete_memory_provider be request w =
     (let agentcore_control_client = (None :: client option) in
      case read_local ''agentcore_control_client'' agentcore_control_client of
        Inl e \<Rightarrow> (Inl e, w)
      | Inr c \<Rightarrow> delete_memory_provider_try be request w)"

definition dict_get :: "(string \<times> pyval) list \<Rightarrow> string \<Rightarrow> pyval \<Rightarrow> pyval" where
  "dict_get d k dflt = (case map_of d k of None \<Rightarrow> dflt | Some v \<Rightarrow> v)"

text \<open>\<^verbatim>\<open>x.isoformat() if hasattr(x, 'isoformat') else x\<close>.\<close>

fun iso_or_same :: "backend \<Rightarrow> pyval \<Rightarrow> pyval" where
  "iso_or_same be (PDatetime a t) = PStr (isoformat be a t)"
| "iso_or_same be v = v"

text \<open>The result dictionary of lines 277 to 285.\<close>

fun format_updated :: "backend \<Rightarrow> pyval \<Rightarrow> pyval \<Rightarrow> exn + pyval" where
  "format_updated be mid (PDict d) =
     Inr (PDict
       [(''memoryId'', mid),
        (''name'', dict_get d ''name'' PNone),
        (''description'', dict_get d ''description'' (PStr [])),
        (''eventExpiryDuration'', dict_get d ''eventExpiryDuration'' PNone),
        (''memoryStrategies'', dict_get d ''memoryStrategies'' (PList [])),
        (''createdAt'', iso_or_same be (dict_get d ''createdAt'' (PStr []))),
        (''updatedAt'', iso_or_same be (dict_get d ''updatedAt'' (PStr [])))])"
| "format_updated be mid v = Inl (AttributeError ''object has no attribute get'')"

text \<open>The \<^verbatim>\<open>update_params\<close> dictionary of lines 246 to 261.\<close>

definition update_params :: "provider_request \<Rightarrow> (string \<times> pyval) list" where
  "update_params request =
     [(''id'', memory_id request)]
     @ (if description request = PNone then []
        else [(''description'', description request)])
     @ (if event_expiry_duration request = PNone then []
        else [(''eventExpiryDuration'', event_expiry_duration request)])
     @ (if memory_strategies request = PNone then []
        else [(''memoryStrategies'', memory_strategies request)])"

text \<open>
  The \<^verbatim>\<open>try\<close> statement of \<^verbatim>\<open>update_memory_provider\<close> (lines 239 to 294); its handler
  logs and raises what it caught.
\<close>

definition update_memory_provider_try ::
  "backend \<Rightarrow> provider_request \<Rightarrow> world \<Rightarrow> (exn + pyval) \<times> world" where
  "update_memory_provider_try be request w =
     (case call_get_memory be (memory_id request) w of
        (r, w1) \<Rightarrow>
          (case r of
             Inl e \<Rightarrow> (Inl e, w1)
           | Inr current_memory \<Rightarrow>
               if 1 < length (update_params request) then
                 (case call_update_memory be (update_params request) w1 of
                    (r2, w2) \<Rightarrow>
                      (case r2 of
                         Inl e \<Rightarrow> (Inl e, w2)
                       | Inr ack \<Rightarrow>
                           (case call_get_memory be (memory_id request) w2 of
                              (r3, w3) \<Rightarrow>
                                (case r3 of
                                   Inl e \<Rightarrow> (Inl e, w3)
                                 | Inr updated_memory \<Rightarrow>
                                     (format_updated be (memory_id request) updated_memory,
                                      w3)))))
               else (Inr current_memory, w1)))"

text \<open>
  \<^verbatim>\<open>update_memory_provider\<close> (lines 218 to 294).  Line 237 assigns
  \<^verbatim>\<open>agentcore_control_client\<close> and the function declares no \<^verbatim>\<open>global\<close>, so line 236 reads
  an unbound local variable, as in \<open>delete_memory_provider\<close>.
\<close>

definition update_memory_provider ::
  "backend \<Rightarrow> provider_request \<Rightarrow> world \<Rightarrow> (exn + pyval) \<times> world" where
  "update_memory_provider be request w =
     (let agentcore_control_client = (None :: client option) in
      case read_local ''agentcore_control_client'' agentcore_control_client of
        Inl e \<Rightarrow> (Inl e, w)
      | Inr c \<Rightarrow> update_memory_provider_try be request w)"

section \<open>Concrete backends and requests\<close>

text \<open>Scripted backends in the manner of the test suite's mocks, for concrete runs.\<close>

definition unexpected :: "exn + pyval" where
  "unexpected = Inl (Exception ''unexpected call'')"


definition memory_with_status :: "string \<Rightarrow> exn + pyval" where
  "memory_with_status s =
     Inr (PDict [(''memory'', PDict [(''id'', PStr ''m-123''), (''status'', PStr s)])])"




definition fresh_world :: world where
  "fresh_world = \<lparr>agentcore_memory_id = PStr ''m-123'', trace = []\<rparr>"



definition echoing_ack :: "(string \<times> pyval) list \<Rightarrow> exn + pyval" where
  "echoing_ack args =
     Inr (PDict [(''event'',
       PDict [(''memoryId'', dict_get args ''memoryId'' PNone),
              (''actorId'', dict_get args ''actorId'' PNone),
              (''sessionId'', PStr ''s-1''),
              (''eventId'', PStr ''e-1''),
              (''payload'', dict_get args ''payload'' PNone)])])"

definition session_backend ::
  "(exn + pyval) \<Rightarrow> (exn + pyval) \<Rightarrow> ((string \<times> pyval) list \<Rightarrow> exn + pyval) \<Rightarrow> backend" where
  "session_backend sessions events ack =
     \<lparr>get_memory = (\<lambda>i m. unexpected),
      update_memory = (\<lambda>a. unexpected),
      delete_memory = (\<lambda>m. unexpected),
      list_sessions = (\<lambda>a. sessions),
      list_events = (\<lambda>a. events),
      create_event = ack,
      resolve_memory_id = unexpected,
      now = 0,
      isoformat = (\<lambda>a t. [])\<rparr>"

definition two_events :: "(string \<times> pyval) list list" where
  "two_events =
     [[(''memoryId'', PStr ''m-123''), (''actorId'', PStr ''u1''), (''sessionId'', PStr ''s-1''),
       (''eventId'', PStr ''e-1'')],
      [(''eventId'', PStr ''e-2''), (''actorId'', PStr ''u1''), (''memoryId'', PStr ''m-123''),
       (''sessionId'', PStr ''s-1'')]]"

definition events_backend :: backend where
  "events_backend =
     session_backend unexpected (Inr (PDict [(''events'', PList (map PDict two_events))]))
       (\<lambda>a. unexpected)"

definition u1_request :: request where
  "u1_request =
     \<lparr>session_id = PNone, user_id = PStr ''u1'', next_token = PNone, limit = PInt 10,
      session_context = \<lparr>sc_session_id = PNone, sc_user_id = PStr ''u1'', messages = []\<rparr>\<rparr>"

definition unknown_actor_backend :: backend where
  "unknown_actor_backend =
     session_backend
       (Inl (Exception ''An error occurred (ResourceNotFoundException) when calling the ListSessions operation: Actor not found''))
       unexpected echoing_ack"

definition no_sessions_backend :: backend where
  "no_sessions_backend =
     session_backend (Inr (PDict [(''sessionSummaries'', PList [])])) unexpected echoing_ack"

definition empty_conversation_request :: request where
  "empty_conversation_request =
     \<lparr>session_id = PStr ''s-1'', user_id = PStr ''u1'', next_token = PNone, limit = PNone,
      session_context =
        \<lparr>sc_session_id = PStr ''s-1'', sc_user_id = PStr ''u1'', messages = []\<rparr>\<rparr>"

definition one_message_request :: request where
  "one_message_request =
     \<lparr>session_id = PStr ''s-1'', user_id = PStr ''u1'', next_token = PNone, limit = PNone,
      session_context =
        \<lparr>sc_session_id = PStr ''s-1'', sc_user_id = PStr ''u1'',
         messages = [\<lparr>role = PStr ''USER'', content = PStr ''hello''\<rparr>]\<rparr>\<rparr>"

definition three_sessions :: pyval where
  "three_sessions =
     PDict [(''sessionSummaries'',
       PList [PDict [(''sessionId'', PStr ''s1''), (''actorId'', PStr ''u1''),
                     (''createdAt'', PDatetime False 1000000)],
              PDict [(''sessionId'', PStr ''s2''), (''actorId'', PStr ''u1''),
                     (''createdAt'', PDatetime False 2000000)],
              PDict [(''sessionId'', PStr ''s3''), (''actorId'', PStr ''u1''),
                     (''createdAt'', PDatetime False 3000000)]])]"

definition three_sessions_backend :: backend where
  "three_sessions_backend =
     session_backend (Inr three_sessions) (Inr (PDict [(''events'', PList [])])) echoing_ack"

definition throttled_backend :: backend where
  "throttled_backend =
     session_backend
       (Inl (Exception ''An error occurred (ThrottlingException) when calling the ListSessions operation: Rate exceeded''))
       (Inr (PDict [(''events'', PList [])])) echoing_ack"

definition provider_backend :: backend where
  "provider_backend =
     \<lparr>get_memory = (\<lambda>i m. memory_with_status ''ACTIVE''),
      update_memory = (\<lambda>a. Inr (PDict [])),
      delete_memory = (\<lambda>m. Inr (PDict [])),
      list_sessions = (\<lambda>a. unexpected),
      list_events = (\<lambda>a. unexpected),
      create_event = (\<lambda>a. unexpected),
      resolve_memory_id = unexpected,
      now = 0,
      isoformat = (\<lambda>a t. [])\<rparr>"

definition no_fields_request :: provider_request where
  "no_fields_request =
     \<lparr>memory_id = PStr ''m-123'', description = PNone, event_expiry_duration = PNone,
      memory_strategies = PNone\<rparr>"

definition aware_session_backend :: backend where
  "aware_session_backend =
     session_backend
       (Inr (PDict [(''sessionSummaries'',
          PList [PDict [(''sessionId'', PStr ''s1''), (''actorId'', PStr ''u1''),
                        (''createdAt'', PDatetime True 1700000000000000)]])]))
       (Inr (PDict [(''events'', PList [])])) echoing_ack"

section \<open>Counting the checks and sleeps of the poll loops\<close>



























lemma get_memories_loop_strips:
  "\<forall>d \<in> set ds. map_of d ''memoryId'' \<noteq> None \<and> map_of d ''actorId'' \<noteq> None \<Longrightarrow>
   get_memories_loop (map PDict ds) acc =
     Inr (acc @ map (\<lambda>d. PDict (AList.delete ''actorId'' (AList.delete ''memoryId'' d))) ds)"
proof (induction ds arbitrary: acc)
  case Nil
  show ?case by simp
next
  case (Cons d ds)
  from Cons.prems obtain v u where v: "map_of d ''memoryId'' = Some v"
    and u: "map_of d ''actorId'' = Some u" by auto
  have u': "map_of (AList.delete ''memoryId'' d) ''actorId'' = Some u"
    using u by (simp add: AList.delete_conv')
  from Cons.prems have rest: "\<forall>d \<in> set ds. map_of d ''memoryId'' \<noteq> None \<and> map_of d ''actorId'' \<noteq> None"
    by simp
  show ?case
    by (simp add: v u' Cons.IH [OF rest])
qed

lemma map_of_stripped:
  "map_of (AList.delete ''actorId'' (AList.delete ''memoryId'' d)) k =
     (if k = ''memoryId'' \<or> k = ''actorId'' then None else map_of d k)"
  by (simp add: AList.delete_conv')

text \<open>
  Claim C5.  When \<^verbatim>\<open>list_events\<close> answers with a response whose \<^verbatim>\<open>events\<close> entry is a list of
  events, each a dictionary that carries the keys \<^verbatim>\<open>memoryId\<close> and \<^verbatim>\<open>actorId\<close> (the shape
  of the backend's event), \<^verbatim>\<open>get_memories\<close> returns a list of the same length in the same
  order, whose \<open>i\<close>-th element is the \<open>i\<close>-th event with exactly these two keys removed:
  every other key keeps its value and its place.
\<close>

theorem get_memories_strips_ids:
  assumes "list_events be (list_events_args (agentcore_memory_id w) request) = Inr (PDict r)"
    and "map_of r ''events'' = Some (PList (map PDict ds))"
    and "\<forall>d \<in> set ds. map_of d ''memoryId'' \<noteq> None \<and> map_of d ''actorId'' \<noteq> None"
  shows "\<exists>out. fst (get_memories be request w) = Inr (map PDict out)
           \<and> length out = length ds
           \<and> (\<forall>i < length ds.
                 out ! i = AList.delete ''actorId'' (AList.delete ''memoryId'' (ds ! i))
               \<and> (\<forall>k. map_of (out ! i) k =
                       (if k = ''memoryId'' \<or> k = ''actorId'' then None else map_of (ds ! i) k)))"
proof -
  let ?out = "map (\<lambda>d. AList.delete ''actorId'' (AList.delete ''memoryId'' d)) ds"
  have "fst (get_memories be request w) = Inr (map PDict ?out)"
    using assms(1,2) get_memories_loop_strips [OF assms(3), of "[]"]
    by (simp add: get_memories_def call_list_events_def comp_def)
  moreover have "length ?out = length ds" by simp
  moreover have "\<forall>i < length ds.
      ?out ! i = AList.delete ''actorId'' (AList.delete ''memoryId'' (ds ! i))
    \<and> (\<forall>k. map_of (?out ! i) k =
           (if k = ''memoryId'' \<or> k = ''actorId'' then None else map_of (ds ! i) k))"
    by (simp add: map_of_stripped)
  ultimately show ?thesis by blast
qed

theorem get_memories_strips_ids_witness:
  "fst (get_memories events_backend u1_request fresh_world) =
     Inr [PDict [(''sessionId'', PStr ''s-1''), (''eventId'', PStr ''e-1'')],
          PDict [(''eventId'', PStr ''e-2''), (''sessionId'', PStr ''s-1'')]]"
proof -
  have a: "list_events events_backend
      (list_events_args (agentcore_memory_id fresh_world) u1_request) =
      Inr (PDict [(''events'', PList (map PDict two_events))])"
    by (simp add: events_backend_def session_backend_def)
  have b: "map_of [(''events'', PList (map PDict two_events))] ''events'' =
      Some (PList (map PDict two_events))"
    by simp
  have c: "\<forall>d \<in> set two_events. map_of d ''memoryId'' \<noteq> None \<and> map_of d ''actorId'' \<noteq> None"
    by (simp add: two_events_def)
  from get_memories_strips_ids [OF a b c] obtain out
    where r: "fst (get_memories events_backend u1_request fresh_world) = Inr (map PDict out)"
      and l: "length out = length two_events"
      and e: "\<forall>i < length two_events.
        out ! i = AList.delete ''actorId'' (AList.delete ''memoryId'' (two_events ! i))"
    by blast
  from l have l2: "length out = 2" by (simp add: two_events_def)
  from e have "out ! 0 = [(''sessionId'', PStr ''s-1''), (''eventId'', PStr ''e-1'')]"
    and "out ! 1 = [(''eventId'', PStr ''e-2''), (''sessionId'', PStr ''s-1'')]"
    by (simp_all add: two_events_def AList.delete_eq)
  with l2 have "out = [[(''sessionId'', PStr ''s-1''), (''eventId'', PStr ''e-1'')],
      [(''eventId'', PStr ''e-2''), (''sessionId'', PStr ''s-1'')]]"
    by (cases out; cases "tl out"; cases "tl (tl out)") auto
  with r show ?thesis by simp
qed


lemma appends_record_call:
  "appends (record_call c w) = appends w + (if is_append c then 1 else 0)"
  by (simp add: appends_def record_call_def)

lemma initialize_session_acknowledged:
  assumes "create_event be (init_event_args be (agentcore_memory_id w) actor) = Inr (PDict a)"
    and "map_of a ''event'' = Some (PDict ev)"
    and "map_of ev ''sessionId'' = Some sid"
    and "map_of ev ''actorId'' = Some aid"
  shows "initialize_session be actor w =
           (Inr \<lparr>sc_session_id = sid, sc_user_id = aid,
                 messages = [\<lparr>role = PStr ''assistant'',
                              content = PList [PDict [(''type'', PStr ''text''),
                                                      (''text'', PStr init_text)]]\<rparr>]\<rparr>,
            record_call (CreateEvent (init_event_args be (agentcore_memory_id w) actor)) w)"
  using assms by (simp add: initialize_session_def call_create_event_def)

text \<open>
  Claim C6.  Let the request carry no session id and the memory id be available.  When
  \<^verbatim>\<open>list_sessions\<close> raises an error naming \<^verbatim>\<open>ResourceNotFoundException\<close>, or answers with no
  session summaries, and the backend acknowledges the append with an event that carries a
  session id and the actor id it was given, then \<^verbatim>\<open>get_session_context\<close> makes exactly one
  \<^verbatim>\<open>create_event\<close> call after the listing and returns a new session context: its user id is
  the requested actor id, and its message list has exactly one entry, of role
  \<^verbatim>\<open>assistant\<close>, whose content is the fixed initialization text.
\<close>

theorem new_session_when_no_sessions:
  assumes "ensure_memory_id be w = (Inr (), w0)"
    and "\<not> py_truthy (session_id request)"
    and "(\<exists>e. list_sessions be (list_sessions_args (agentcore_memory_id w0) request) = Inl e
              \<and> py_in ''ResourceNotFoundException'' (str_exn e))
         \<or> (\<exists>r. list_sessions be (list_sessions_args (agentcore_memory_id w0) request) = Inr (PDict r)
              \<and> (map_of r ''sessionSummaries'' = None
                 \<or> map_of r ''sessionSummaries'' = Some (PList [])))"
    and "create_event be (init_event_args be (agentcore_memory_id w0) (user_id request)) =
           Inr (PDict a)"
    and "map_of a ''event'' = Some (PDict ev)"
    and "map_of ev ''sessionId'' = Some sid"
    and "map_of ev ''actorId'' = Some (user_id request)"
  shows "fst (get_session_context be request w) =
           Inr (NewSession
             \<lparr>sc_session_id = sid, sc_user_id = user_id request,
              messages = [\<lparr>role = PStr ''assistant'',
                           content = PList [PDict [(''type'', PStr ''text''),
                                                   (''text'', PStr init_text)]]\<rparr>]\<rparr>)
       \<and> trace (snd (get_session_context be request w)) =
           trace w0 @ [ListSessions (list_sessions_args (agentcore_memory_id w0) request),
                       CreateEvent (init_event_args be (agentcore_memory_id w0) (user_id request))]
       \<and> appends (snd (get_session_context be request w)) = appends w0 + 1"
proof -
  let ?w1 = "record_call (ListSessions (list_sessions_args (agentcore_memory_id w0) request)) w0"
  have id1: "agentcore_memory_id ?w1 = agentcore_memory_id w0"
    by (simp add: record_call_def)
  have init: "initialize_session be (user_id request) ?w1 =
      (Inr \<lparr>sc_session_id = sid, sc_user_id = user_id request,
            messages = [\<lparr>role = PStr ''assistant'',
                         content = PList [PDict [(''type'', PStr ''text''),
                                                 (''text'', PStr init_text)]]\<rparr>]\<rparr>,
       record_call (CreateEvent (init_event_args be (agentcore_memory_id w0) (user_id request))) ?w1)"
    using initialize_session_acknowledged [of be ?w1 "user_id request" a ev sid "user_id request"]
      assms(4-7) id1 by simp
  have res: "resolve_session be request w0 =
      return_new_session (initialize_session be (user_id request) ?w1)"
    using assms(3)
    by (auto simp add: resolve_session_def call_list_sessions_def after_listing_def read_local_def)
  have "get_session_context be request w =
      (Inr (NewSession
         \<lparr>sc_session_id = sid, sc_user_id = user_id request,
          messages = [\<lparr>role = PStr ''assistant'',
                       content = PList [PDict [(''type'', PStr ''text''),
                                               (''text'', PStr init_text)]]\<rparr>]\<rparr>),
       record_call (CreateEvent (init_event_args be (agentcore_memory_id w0) (user_id request))) ?w1)"
    using assms(1,2) by (simp add: get_session_context_def res init return_new_session_def)
  then show ?thesis
    by (simp add: record_call_def appends_def)
qed


theorem new_session_when_no_sessions_witness:
  "fst (get_session_context unknown_actor_backend u1_request fresh_world) =
     Inr (NewSession
       \<lparr>sc_session_id = PStr ''s-1'', sc_user_id = PStr ''u1'',
        messages = [\<lparr>role = PStr ''assistant'',
                     content = PList [PDict [(''type'', PStr ''text''),
                                             (''text'', PStr init_text)]]\<rparr>]\<rparr>)
   \<and> appends (snd (get_session_context unknown_actor_backend u1_request fresh_world)) = 1
   \<and> fst (get_session_context no_sessions_backend u1_request fresh_world) =
     Inr (NewSession
       \<lparr>sc_session_id = PStr ''s-1'', sc_user_id = PStr ''u1'',
        messages = [\<lparr>role = PStr ''assistant'',
                     content = PList [PDict [(''type'', PStr ''text''),
                                             (''text'', PStr init_text)]]\<rparr>]\<rparr>)
   \<and> appends (snd (get_session_context no_sessions_backend u1_request fresh_world)) = 1"
proof -
  have zero: "appends fresh_world = 0"
    by (simp add: appends_def fresh_world_def)
  have uid: "user_id u1_request = PStr ''u1''"
    by (simp add: u1_request_def)
  have h2: "\<not> py_truthy (session_id u1_request)"
    by (simp add: u1_request_def)
  have h5: "map_of [(''event'',
        PDict [(''memoryId'', PStr ''m-123''), (''actorId'', PStr ''u1''),
               (''sessionId'', PStr ''s-1''), (''eventId'', PStr ''e-1''),
               (''payload'', init_payload)])] ''event'' =
      Some (PDict [(''memoryId'', PStr ''m-123''), (''actorId'', PStr ''u1''),
               (''sessionId'', PStr ''s-1''), (''eventId'', PStr ''e-1''),
               (''payload'', init_payload)])"
    by simp
  have h6: "map_of [(''memoryId'', PStr ''m-123''), (''actorId'', PStr ''u1''),
               (''sessionId'', PStr ''s-1''), (''eventId'', PStr ''e-1''),
               (''payload'', init_payload)] ''sessionId'' = Some (PStr ''s-1'')"
    by simp
  have h7: "map_of [(''memoryId'', PStr ''m-123''), (''actorId'', PStr ''u1''),
               (''sessionId'', PStr ''s-1''), (''eventId'', PStr ''e-1''),
               (''payload'', init_payload)] ''actorId'' = Some (user_id u1_request)"
    by (simp add: uid)
  have a1: "ensure_memory_id unknown_actor_backend fresh_world = (Inr (), fresh_world)"
    by (simp add: ensure_memory_id_def fresh_world_def)
  have a3: "(\<exists>e. list_sessions unknown_actor_backend
                (list_sessions_args (agentcore_memory_id fresh_world) u1_request) = Inl e
              \<and> py_in ''ResourceNotFoundException'' (str_exn e))
         \<or> (\<exists>r. list_sessions unknown_actor_backend
                (list_sessions_args (agentcore_memory_id fresh_world) u1_request) = Inr (PDict r)
              \<and> (map_of r ''sessionSummaries'' = None
                 \<or> map_of r ''sessionSummaries'' = Some (PList [])))"
    by (simp add: unknown_actor_backend_def session_backend_def)
  have a4: "create_event unknown_actor_backend
      (init_event_args unknown_actor_backend (agentcore_memory_id fresh_world) (user_id u1_request)) =
      Inr (PDict [(''event'',
        PDict [(''memoryId'', PStr ''m-123''), (''actorId'', PStr ''u1''),
               (''sessionId'', PStr ''s-1''), (''eventId'', PStr ''e-1''),
               (''payload'', init_payload)])])"
    by (simp add: unknown_actor_backend_def session_backend_def echoing_ack_def init_event_args_def
        dict_get_def fresh_world_def uid)
  have b1: "ensure_memory_id no_sessions_backend fresh_world = (Inr (), fresh_world)"
    by (simp add: ensure_memory_id_def fresh_world_def)
  have b3: "(\<exists>e. list_sessions no_sessions_backend
                (list_sessions_args (agentcore_memory_id fresh_world) u1_request) = Inl e
              \<and> py_in ''ResourceNotFoundException'' (str_exn e))
         \<or> (\<exists>r. list_sessions no_sessions_backend
                (list_sessions_args (agentcore_memory_id fresh_world) u1_request) = Inr (PDict r)
              \<and> (map_of r ''sessionSummaries'' = None
                 \<or> map_of r ''sessionSummaries'' = Some (PList [])))"
    by (simp add: no_sessions_backend_def session_backend_def)
  have b4: "create_event no_sessions_backend
      (init_event_args no_sessions_backend (agentcore_memory_id fresh_world) (user_id u1_request)) =
      Inr (PDict [(''event'',
        PDict [(''memoryId'', PStr ''m-123''), (''actorId'', PStr ''u1''),
               (''sessionId'', PStr ''s-1''), (''eventId'', PStr ''e-1''),
               (''payload'', init_payload)])])"
    by (simp add: no_sessions_backend_def session_backend_def echoing_ack_def init_event_args_def
        dict_get_def fresh_world_def uid)
  from new_session_when_no_sessions [OF a1 h2 a3 a4 h5 h6 h7]
    new_session_when_no_sessions [OF b1 h2 b3 b4 h5 h6 h7] zero uid
  show ?thesis by simp
qed

lemma create_memory_trace:
  "messages (session_context request) \<noteq> [] \<Longrightarrow>
   trace (snd (create_memory be request w)) =
     trace w @ [CreateEvent (create_memory_args (agentcore_memory_id w) request
                  (last (messages (session_context request))))]"
  by (simp add: create_memory_def py_last_def call_create_event_def record_call_def
      create_memory_args_def split: sum.splits)

text \<open>
  Claim C10.  With an empty \<^verbatim>\<open>session_context.messages\<close> list \<^verbatim>\<open>create_memory\<close> raises
  \<^verbatim>\<open>IndexError\<close> and leaves the world as it was: no call reaches the backend.  Hence a run
  that made an append call had a non-empty list; and with a non-empty list the one call
  made is the append of the last message.
\<close>

theorem create_memory_needs_a_message:
  "(messages (session_context request) = [] \<longrightarrow>
      create_memory be request w = (Inl (IndexError ''list index out of range''), w))
   \<and> (appends (snd (create_memory be request w)) \<noteq> appends w \<longrightarrow>
      messages (session_context request) \<noteq> [])
   \<and> (messages (session_context request) \<noteq> [] \<longrightarrow>
      trace (snd (create_memory be request w)) =
        trace w @ [CreateEvent (create_memory_args (agentcore_memory_id w) request
                     (last (messages (session_context request))))])"
proof -
  have empty: "create_memory be request w = (Inl (IndexError ''list index out of range''), w)"
    if "messages (session_context request) = []"
    using that by (simp add: create_memory_def py_last_def)
  then have "appends (snd (create_memory be request w)) = appends w"
    if "messages (session_context request) = []"
    using that by simp
  with empty create_memory_trace show ?thesis by blast
qed

theorem create_memory_needs_a_message_witness:
  "create_memory (session_backend unexpected unexpected echoing_ack)
       empty_conversation_request fresh_world =
     (Inl (IndexError ''list index out of range''), fresh_world)
   \<and> trace (snd (create_memory (session_backend unexpected unexpected echoing_ack)
       one_message_request fresh_world)) =
     [CreateEvent [(''memoryId'', PStr ''m-123''), (''sessionId'', PStr ''s-1''),
        (''actorId'', PStr ''u1''),
        (''payload'', PList [PDict [(''conversational'',
           PDict [(''content'', PDict [(''text'', PStr ''hello'')]),
                  (''role'', PStr ''USER'')])]])]]"
proof -
  have e: "messages (session_context empty_conversation_request) = []"
    by (simp add: empty_conversation_request_def)
  have m: "messages (session_context one_message_request) \<noteq> []"
    by (simp add: one_message_request_def)
  from create_memory_needs_a_message
      [of empty_conversation_request "session_backend unexpected unexpected echoing_ack" fresh_world]
    create_memory_needs_a_message
      [of one_message_request "session_backend unexpected unexpected echoing_ack" fresh_world]
    e m
  show ?thesis
    by (simp add: create_memory_args_def one_message_request_def fresh_world_def)
qed

section \<open>Where the code departs from the specification\<close>

text \<open>
  The scan itself keeps the first session with the greatest \<^verbatim>\<open>createdAt\<close>: when every
  summary holds a naive \<^verbatim>\<open>createdAt\<close> and an identifier under the key the code reads, and
  some session is newer than the starting time, the scan ends with the identifier and time
  of the first session that no other session is newer than.
\<close>

lemma scan_sessions_none_newer:
  assumes "\<forall>s \<in> set ss. map_of s ''createdAt'' = Some (PDatetime False (tm s))"
    and "\<forall>s \<in> set ss. tm s \<le> ct"
  shows "scan_sessions (map PDict ss) cid (PDatetime False ct) = Inr (cid, PDatetime False ct)"
  using assms by (induction ss) auto

lemma scan_sessions_first_latest:
  assumes "\<forall>s \<in> set ss. map_of s ''createdAt'' = Some (PDatetime False (tm s))
                       \<and> map_of s ''sesssionId'' = Some (sid s)"
    and "i < length ss"
    and "ct < tm (ss ! i)"
    and "\<forall>j < length ss. tm (ss ! j) \<le> tm (ss ! i)"
    and "\<forall>j < i. tm (ss ! j) < tm (ss ! i)"
  shows "scan_sessions (map PDict ss) cid (PDatetime False ct) =
           Inr (sid (ss ! i), PDatetime False (tm (ss ! i)))"
  using assms
proof (induction ss arbitrary: i cid ct)
  case Nil
  then show ?case by simp
next
  case (Cons s rest)
  from Cons.prems(1) have here: "map_of s ''createdAt'' = Some (PDatetime False (tm s))"
    "map_of s ''sesssionId'' = Some (sid s)"
    and keys: "\<forall>s \<in> set rest. map_of s ''createdAt'' = Some (PDatetime False (tm s))
                       \<and> map_of s ''sesssionId'' = Some (sid s)"
    by simp_all
  show ?case
  proof (cases i)
    case 0
    with Cons.prems(3) have newer: "ct < tm s" by simp
    have "\<forall>x \<in> set rest. tm x \<le> tm s"
    proof
      fix x assume "x \<in> set rest"
      then obtain j where "j < length rest" "rest ! j = x" by (auto simp: in_set_conv_nth)
      with Cons.prems(4) [rule_format, of "Suc j"] 0 show "tm x \<le> tm s" by simp
    qed
    with keys have "scan_sessions (map PDict rest) (sid s) (PDatetime False (tm s)) =
        Inr (sid s, PDatetime False (tm s))"
      by (intro scan_sessions_none_newer) auto
    with here newer 0 show ?thesis by simp
  next
    case (Suc i')
    with Cons.prems(2) have i': "i' < length rest" by simp
    from Cons.prems(5) [rule_format, of 0] Suc have older: "tm s < tm (rest ! i')" by simp
    have le: "\<forall>j < length rest. tm (rest ! j) \<le> tm (rest ! i')"
    proof (intro allI impI)
      fix j assume "j < length rest"
      with Cons.prems(4) [rule_format, of "Suc j"] Suc show "tm (rest ! j) \<le> tm (rest ! i')"
        by simp
    qed
    have lt: "\<forall>j < i'. tm (rest ! j) < tm (rest ! i')"
    proof (intro allI impI)
      fix j assume "j < i'"
      with Cons.prems(5) [rule_format, of "Suc j"] Suc show "tm (rest ! j) < tm (rest ! i')"
        by simp
    qed
    show ?thesis
    proof (cases "ct < tm s")
      case True
      from Cons.IH [OF keys i' older le lt, of "sid s"] here True Suc show ?thesis by simp
    next
      case False
      from Cons.prems(3) Suc have "ct < tm (rest ! i')" by simp
      from Cons.IH [OF keys i' this le lt, of cid] here False Suc show ?thesis by simp
    qed
  qed
qed

text \<open>
  Claim C1 at a concrete response.  The backend lists three sessions, each with the keys
  \<^verbatim>\<open>sessionId\<close>, \<^verbatim>\<open>actorId\<close> and \<^verbatim>\<open>createdAt\<close>.  The scan reaches the first session newer
  than 1970-01-01, reads its identifier under the key \<^verbatim>\<open>sesssionId\<close> and raises
  \<^verbatim>\<open>KeyError\<close>; the outer handler raises it again.  No session is selected and no events
  are read: the listing is the only call made.
\<close>

theorem most_recent_session_key_error:
  "fst (get_session_context three_sessions_backend u1_request fresh_world) =
     Inl (KeyError ''sesssionId'')
   \<and> trace (snd (get_session_context three_sessions_backend u1_request fresh_world)) =
     [ListSessions [(''memoryId'', PStr ''m-123''), (''actorId'', PStr ''u1'')]]"
  by (simp add: get_session_context_def ensure_memory_id_def resolve_session_def
      call_list_sessions_def list_sessions_args_def after_listing_def read_local_def
      three_sessions_backend_def three_sessions_def session_backend_def u1_request_def
      fresh_world_def record_call_def)

text \<open>
  A timezone-aware \<^verbatim>\<open>createdAt\<close>, as boto3 parses timestamps, fails one step earlier: the
  comparison with the naive \<^verbatim>\<open>datetime(1970,1,1)\<close> of line 497 raises \<^verbatim>\<open>TypeError\<close>.
\<close>

lemma aware_timestamp_type_error:
  "fst (get_session_context aware_session_backend u1_request fresh_world) =
     Inl (TypeError ''can't compare offset-naive and offset-aware datetimes'')"
  by (simp add: get_session_context_def ensure_memory_id_def resolve_session_def
      call_list_sessions_def list_sessions_args_def after_listing_def read_local_def
      aware_session_backend_def session_backend_def u1_request_def
      fresh_world_def record_call_def)

text \<open>
  A listing error whose text does not name \<^verbatim>\<open>ResourceNotFoundException\<close> is caught by the
  inner handler, which ends without raising; line 489 then reads the local variable
  \<^verbatim>\<open>response\<close>, which was never bound.
\<close>

lemma listing_error_leaves_response_unbound:
  assumes "ensure_memory_id be w = (Inr (), w0)"
    and "\<not> py_truthy (session_id request)"
    and "list_sessions be (list_sessions_args (agentcore_memory_id w0) request) = Inl e"
    and "\<not> py_in ''ResourceNotFoundException'' (str_exn e)"
  shows "fst (get_session_context be request w) = Inl (UnboundLocalError ''response'')"
  using assms
  by (simp add: get_session_context_def resolve_session_def call_list_sessions_def
      after_listing_def read_local_def)

text \<open>
  Claim C9 at a concrete error.  The listing raises a throttling error; the caller does
  not receive it but an \<^verbatim>\<open>UnboundLocalError\<close> for \<^verbatim>\<open>response\<close>.
\<close>

theorem listing_error_is_masked:
  "fst (get_session_context throttled_backend u1_request fresh_world) =
     Inl (UnboundLocalError ''response'')
   \<and> trace (snd (get_session_context throttled_backend u1_request fresh_world)) =
     [ListSessions [(''memoryId'', PStr ''m-123''), (''actorId'', PStr ''u1'')]]"
  by (simp add: get_session_context_def ensure_memory_id_def resolve_session_def
      call_list_sessions_def list_sessions_args_def after_listing_def read_local_def
      throttled_backend_def session_backend_def u1_request_def fresh_world_def record_call_def)

text \<open>
  Both provider operations stop at their first statement after the log line, whatever
  the request and the backend, and make no call.
\<close>

lemma update_memory_provider_always_unbound:
  "update_memory_provider be request w = (Inl (UnboundLocalError ''agentcore_control_client''), w)"
  by (simp add: update_memory_provider_def read_local_def)

lemma delete_memory_provider_always_unbound:
  "delete_memory_provider be request w = (Inl (UnboundLocalError ''agentcore_control_client''), w)"
  by (simp add: delete_memory_provider_def read_local_def)

lemma updates_record_call:
  "updates (record_call c w) = updates w + (if is_update c then 1 else 0)"
  by (simp add: updates_def record_call_def)

text \<open>
  What the two \<^verbatim>\<open>try\<close> statements do once entered: an update without optional fields
  returns the details it fetched and makes no update call; a delete makes the one delete
  call, returns the requested id when it succeeds and raises its error otherwise.
\<close>

lemma update_try_without_fields:
  assumes "description request = PNone" and "event_expiry_duration request = PNone"
    and "memory_strategies request = PNone"
    and "get_memory be (checks w) (memory_id request) = Inr current_memory"
  shows "update_memory_provider_try be request w =
           (Inr current_memory, record_call (GetMemory (memory_id request)) w)
       \<and> updates (snd (update_memory_provider_try be request w)) = updates w"
  using assms
  by (simp add: update_memory_provider_try_def update_params_def call_get_memory_def
      updates_record_call)

lemma delete_try_outcomes:
  "(delete_memory be (memory_id request) = Inr ack \<longrightarrow>
      fst (delete_memory_provider_try be request w) = Inr (memory_id request))
   \<and> (delete_memory be (memory_id request) = Inl e \<longrightarrow>
      fst (delete_memory_provider_try be request w) = Inl e)
   \<and> trace (snd (delete_memory_provider_try be request w)) =
      trace w @ [DeleteMemory (memory_id request)]"
  by (simp add: delete_memory_provider_try_def call_delete_memory_def record_call_def
      split: sum.splits)

text \<open>
  Claim C7 at a concrete request.  An update request with no optional field raises
  \<^verbatim>\<open>UnboundLocalError\<close> for \<^verbatim>\<open>agentcore_control_client\<close> and returns nothing, although its
  \<^verbatim>\<open>try\<close> statement, had it been reached, would have returned the fetched details.
\<close>

theorem update_without_fields_unbound_client:
  "update_memory_provider provider_backend no_fields_request fresh_world =
     (Inl (UnboundLocalError ''agentcore_control_client''), fresh_world)
   \<and> fst (update_memory_provider_try provider_backend no_fields_request fresh_world) =
     memory_with_status ''ACTIVE''"
  by (simp add: update_memory_provider_def read_local_def update_memory_provider_try_def
      update_params_def call_get_memory_def provider_backend_def no_fields_request_def
      memory_with_status_def)

text \<open>
  Claim C8 at a concrete request.  A delete request raises \<^verbatim>\<open>UnboundLocalError\<close> for
  \<^verbatim>\<open>agentcore_control_client\<close> before the delete call, which is never made, although its
  \<^verbatim>\<open>try\<close> statement, had it been reached, would have returned the requested id.
\<close>

theorem delete_unbound_client:
  "delete_memory_provider provider_backend no_fields_request fresh_world =
     (Inl (UnboundLocalError ''agentcore_control_client''), fresh_world)
   \<and> fst (delete_memory_provider_try provider_backend no_fields_request fresh_world) =
     Inr (PStr ''m-123'')"
  by (simp add: delete_memory_provider_def read_local_def delete_memory_provider_try_def
      call_delete_memory_def provider_backend_def no_fields_request_def)

end
